theory Spec2Isabelle
  imports Main "HOL-Library.Sublist"
begin

section \<open>JavaScript values\<close>

text \<open>
  A number of the model is an integer that JavaScript holds exactly and prints in decimal
  digits: a safe integer, of magnitude below \<open>2 ^ 53\<close>, as every time value of
  \<^verbatim>\<open>Date.now()\<close> is. Other numbers are outside the model. \<open>num n\<close> writes the number
  \<open>n\<close> and is used on integers of that range only.
\<close>

typedef safe_integer = "{n :: int. abs n < 2 ^ 53}"
  morphisms int_of Abs_safe_integer
  by (intro exI [of _ 0]) simp

setup_lifting type_definition_safe_integer

lift_definition num :: "int \<Rightarrow> safe_integer" is "\<lambda>n. if abs n < 2 ^ 53 then n else 0"
  by simp

instantiation safe_integer :: equal
begin

lift_definition equal_safe_integer :: "safe_integer \<Rightarrow> safe_integer \<Rightarrow> bool" is "(=)" .

instance
  by standard (simp add: equal_safe_integer_def int_of_inject)

end

text \<open>
  The values that reach the task collection of \<^verbatim>\<open>script.js\<close> are strings, booleans,
  numbers and whatever \<^verbatim>\<open>JSON.parse\<close> returns. A \<open>json\<close> is such a value; an object is
  the list of its own properties (distinct keys, in insertion order). \<^verbatim>\<open>undefined\<close> is
  \<open>None\<close>. A \<open>char\<close> stands for a code unit below 256.
\<close>

datatype json =
    JNull
  | JBool bool
  | JNum safe_integer
  | JStr string
  | JArr "json list"
  | JObj "(string \<times> json) list"

type_synonym jsval = "json option"

datatype error = TypeError | SyntaxError | QuotaExceededError

text \<open>The values that \<^verbatim>\<open>??\<close> replaces: \<^verbatim>\<open>undefined\<close> and \<^verbatim>\<open>null\<close>.\<close>

definition nullish :: "jsval \<Rightarrow> bool" where
  "nullish v = (v = None \<or> v = Some JNull)"

definition coalesce :: "jsval \<Rightarrow> jsval \<Rightarrow> jsval" where
  "coalesce v d = (if nullish v then d else v)"

text \<open>What \<^verbatim>\<open>if (v)\<close>, \<^verbatim>\<open>!v\<close> and \<^verbatim>\<open>!!v\<close> test.\<close>

fun truthy :: "jsval \<Rightarrow> bool" where
  "truthy None = False"
| "truthy (Some JNull) = False"
| "truthy (Some (JBool b)) = b"
| "truthy (Some (JNum n)) = (int_of n \<noteq> 0)"
| "truthy (Some (JStr s)) = (s \<noteq> [])"
| "truthy (Some (JArr xs)) = True"
| "truthy (Some (JObj fs)) = True"

subsection \<open>Conversion to a string\<close>

definition digit_char :: "nat \<Rightarrow> char" where
  "digit_char d = char_of (48 + d)"

fun decimal :: "nat \<Rightarrow> string" where
  "decimal n = (if n < 10 then [digit_char n] else decimal (n div 10) @ [digit_char (n mod 10)])"

declare decimal.simps [simp del]

text \<open>
  \<^verbatim>\<open>String(v)\<close> of a value. An array joins the strings of its elements with commas, a
  \<^verbatim>\<open>null\<close> element counting as the empty string. An object that \<^verbatim>\<open>JSON.parse\<close> made is
  \<^verbatim>\<open>[object Object]\<close>, unless it has an own property \<^verbatim>\<open>toString\<close>: that property is no
  function, the inherited \<^verbatim>\<open>valueOf\<close> returns the object, and the conversion throws a
  TypeError.
\<close>

fun ToString_json :: "json \<Rightarrow> error + string"
  and join_elements :: "json list \<Rightarrow> error + string" where
  "ToString_json JNull = Inr ''null''"
| "ToString_json (JBool b) = Inr (if b then ''true'' else ''false'')"
| "ToString_json (JNum n) =
     Inr (if int_of n < 0 then ''-'' @ decimal (nat (- int_of n)) else decimal (nat (int_of n)))"
| "ToString_json (JStr s) = Inr s"
| "ToString_json (JArr xs) = join_elements xs"
| "ToString_json (JObj fs) =
     (if map_of fs ''toString'' \<noteq> None then Inl TypeError else Inr ''[object Object]'')"
| "join_elements [] = Inr []"
| "join_elements (x # xs) =
     (case (if x = JNull then Inr [] else ToString_json x) of
        Inl e \<Rightarrow> Inl e
      | Inr s \<Rightarrow>
          if xs = [] then Inr s
          else (case join_elements xs of
                  Inl e \<Rightarrow> Inl e
                | Inr r \<Rightarrow> Inr (s @ '','' @ r)))"

definition ToString :: "jsval \<Rightarrow> error + string" where
  "ToString v = (case v of None \<Rightarrow> Inr ''undefined'' | Some j \<Rightarrow> ToString_json j)"

text \<open>
  Assigning to \<^verbatim>\<open>textContent\<close>: \<^verbatim>\<open>null\<close> and \<^verbatim>\<open>undefined\<close> clear the text, any other
  value is converted.
\<close>

definition textContent_of :: "jsval \<Rightarrow> error + string" where
  "textContent_of v = (if nullish v then Inr [] else ToString v)"

subsection \<open>\<^verbatim>\<open>String.prototype.trim\<close>\<close>

text \<open>
  The white space and line terminators below code unit 256: TAB, LF, VT, FF, CR, SP and
  NBSP.
\<close>

definition is_space :: "char \<Rightarrow> bool" where
  "is_space c = (of_char c \<in> {9, 10, 11, 12, 13, 32, 160 :: nat})"

definition trim :: "string \<Rightarrow> string" where
  "trim s = rev (dropWhile is_space (rev (dropWhile is_space s)))"

section \<open>Data model\<close>

text \<open>\<^verbatim>\<open>class Todo\<close>. The field \<^verbatim>\<open>id\<close> is \<open>id_todo\<close> here.\<close>

record Todo =
  id_todo :: jsval
  title :: jsval
  description :: jsval
  completed :: jsval
  createdAt :: jsval

text \<open>
  The constructor: a parameter that is \<^verbatim>\<open>undefined\<close> takes its default; \<open>now\<close> is what
  \<^verbatim>\<open>Date.now()\<close> returns at the call.
\<close>

definition new_Todo :: "jsval \<Rightarrow> jsval \<Rightarrow> jsval \<Rightarrow> jsval \<Rightarrow> jsval \<Rightarrow> safe_integer \<Rightarrow> Todo" where
  "new_Todo i t d c a now =
     \<lparr> id_todo = i,
       title = t,
       description = (case d of None \<Rightarrow> Some (JStr []) | Some v \<Rightarrow> Some v),
       completed = (case c of None \<Rightarrow> Some (JBool False) | Some v \<Rightarrow> Some v),
       createdAt = (case a of None \<Rightarrow> Some (JNum now) | Some v \<Rightarrow> Some v) \<rparr>"

text \<open>
  Reading a property \<^verbatim>\<open>obj.k\<close> of a value other than \<^verbatim>\<open>null\<close>, for the five keys the
  program reads: an object gives its own property, every other value has none.
\<close>

definition get_prop :: "json \<Rightarrow> string \<Rightarrow> jsval" where
  "get_prop obj k = (case obj of JObj fs \<Rightarrow> map_of fs k | _ \<Rightarrow> None)"

text \<open>\<^verbatim>\<open>Todo.fromObject\<close>: reading \<^verbatim>\<open>obj.id\<close> of \<^verbatim>\<open>null\<close> throws a TypeError.\<close>

definition fromObject :: "json \<Rightarrow> safe_integer \<Rightarrow> error + Todo" where
  "fromObject obj now =
     (if obj = JNull then Inl TypeError
      else Inr (new_Todo
                 (get_prop obj ''id'')
                 (get_prop obj ''title'')
                 (coalesce (get_prop obj ''description'') (Some (JStr [])))
                 (coalesce (get_prop obj ''completed'') (Some (JBool False)))
                 (coalesce (get_prop obj ''createdAt'') (Some (JNum now)))
                 now))"

section \<open>State\<close>

datatype filter_kind = FilterAll | FilterActive | FilterCompleted

text \<open>
  One \<^verbatim>\<open>li\<close> of \<^verbatim>\<open>#todo-list\<close>, as \<^verbatim>\<open>createTodoElement\<close> fills the template's item:
  its \<^verbatim>\<open>data-id\<close>, the classes \<^verbatim>\<open>completed\<close> and \<^verbatim>\<open>removing\<close>, the two texts, whether
  the description is hidden, and the checkbox. The template is taken to provide the item
  with its title, description and checkbox parts, as \<^verbatim>\<open>index.html\<close> is documented to.
\<close>

record element =
  data_id :: string
  class_completed :: bool
  class_removing :: bool
  title_text :: string
  desc_text :: string
  desc_hidden :: bool
  checkbox_checked :: bool

text \<open>
  What \<^verbatim>\<open>localStorage\<close> holds under the key \<^verbatim>\<open>colorfulTodo\<close>: the empty string, a text
  that \<^verbatim>\<open>JSON.parse\<close> rejects, or a text that it parses to the given value.
\<close>

datatype stored = EmptyText | BadText | JsonText json

text \<open>
  The store: the item, \<open>None\<close> when the key is missing, and whether \<^verbatim>\<open>setItem\<close>
  succeeds (it throws when the quota is exceeded).
\<close>

record localStorage =
  colorfulTodo :: "stored option"
  accepts_writes :: bool

record app =
  todos :: "Todo list"
  currentFilter :: filter_kind
  listEl :: "element list"
  storage :: localStorage
  titleInput :: string
  descInput :: string

text \<open>
  How a function of the program ends: the exception it throws, \<open>None\<close> when it returns,
  and the state it leaves. What was assigned before a throw stays assigned.
\<close>

type_synonym outcome = "error option \<times> app"

text \<open>Two calls in a row: the second runs when the first has returned.\<close>

definition and_then :: "outcome \<Rightarrow> (app \<Rightarrow> outcome) \<Rightarrow> outcome" where
  "and_then r f = (case r of (None, st) \<Rightarrow> f st | (Some e, st) \<Rightarrow> (Some e, st))"

section \<open>Persistence\<close>

definition setItem :: "localStorage \<Rightarrow> stored \<Rightarrow> error + localStorage" where
  "setItem ls v =
     (if accepts_writes ls then Inr (ls\<lparr>colorfulTodo := Some v\<rparr>) else Inl QuotaExceededError)"

text \<open>
  \<^verbatim>\<open>JSON.stringify\<close> of a \<^verbatim>\<open>Todo\<close>: its five properties in the order the constructor
  assigns them, a property whose value is \<^verbatim>\<open>undefined\<close> left out.
\<close>

definition own_props :: "Todo \<Rightarrow> (string \<times> jsval) list" where
  "own_props t =
     [(''id'', id_todo t), (''title'', title t), (''description'', description t),
      (''completed'', completed t), (''createdAt'', createdAt t)]"

fun defined_props :: "(string \<times> jsval) list \<Rightarrow> (string \<times> json) list" where
  "defined_props [] = []"
| "defined_props ((k, None) # ps) = defined_props ps"
| "defined_props ((k, Some v) # ps) = (k, v) # defined_props ps"

definition stringify_Todo :: "Todo \<Rightarrow> json" where
  "stringify_Todo t = JObj (defined_props (own_props t))"

definition JSON_stringify :: "Todo list \<Rightarrow> stored" where
  "JSON_stringify ts = JsonText (JArr (map stringify_Todo ts))"

definition JSON_parse :: "stored \<Rightarrow> error + json" where
  "JSON_parse raw = (case raw of JsonText j \<Rightarrow> Inr j | _ \<Rightarrow> Inl SyntaxError)"

text \<open>\<^verbatim>\<open>saveTodos\<close>: a failed write is caught and logged, the state stays as it is.\<close>

definition saveTodos :: "app \<Rightarrow> app" where
  "saveTodos st =
     (case setItem (storage st) (JSON_stringify (todos st)) of
        Inr ls \<Rightarrow> st\<lparr>storage := ls\<rparr>
      | Inl e \<Rightarrow> st)"

section \<open>Rendering\<close>

text \<open>
  \<^verbatim>\<open>createTodoElement\<close>: the assignments to \<^verbatim>\<open>dataset.id\<close> and to the two
  \<^verbatim>\<open>textContent\<close> convert the value to a string, in this order; the first conversion
  that throws ends the call.
\<close>

definition createTodoElement :: "Todo \<Rightarrow> error + element" where
  "createTodoElement todo =
     (case ToString (id_todo todo) of
        Inl e \<Rightarrow> Inl e
      | Inr i \<Rightarrow>
          (case textContent_of (title todo) of
             Inl e \<Rightarrow> Inl e
           | Inr t \<Rightarrow>
               (case textContent_of (description todo) of
                  Inl e \<Rightarrow> Inl e
                | Inr d \<Rightarrow>
                    Inr \<lparr> data_id = i,
                          class_completed = truthy (completed todo),
                          class_removing = False,
                          title_text = t,
                          desc_text = d,
                          desc_hidden = (\<not> truthy (description todo)),
                          checkbox_checked = truthy (completed todo) \<rparr>)))"

text \<open>The constant \<^verbatim>\<open>filtered\<close> of \<^verbatim>\<open>renderTodos\<close>.\<close>

definition filtered :: "filter_kind \<Rightarrow> Todo list \<Rightarrow> Todo list" where
  "filtered f ts =
     filter (\<lambda>todo.
        if f = FilterActive then \<not> truthy (completed todo)
        else if f = FilterCompleted then truthy (completed todo)
        else True) ts"

text \<open>
  \<^verbatim>\<open>filtered.forEach\<close>: each item is appended to the list as it is made; a task whose
  item cannot be made ends the loop, the items appended so far stay.
\<close>

fun append_items :: "Todo list \<Rightarrow> element list \<Rightarrow> error option \<times> element list" where
  "append_items [] els = (None, els)"
| "append_items (todo # ts) els =
     (case createTodoElement todo of
        Inl e \<Rightarrow> (Some e, els)
      | Inr el \<Rightarrow> append_items ts (els @ [el]))"

text \<open>\<^verbatim>\<open>renderTodos\<close>: the list is cleared, then filled.\<close>

definition renderTodos :: "app \<Rightarrow> outcome" where
  "renderTodos st =
     (case append_items (filtered (currentFilter st) (todos st)) [] of
        (r, els) \<Rightarrow> (r, st\<lparr>listEl := els\<rparr>))"

text \<open>The click handler of a filter button.\<close>

definition filter_click :: "app \<Rightarrow> filter_kind \<Rightarrow> outcome" where
  "filter_click st key = renderTodos (st\<lparr>currentFilter := key\<rparr>)"

section \<open>Loading\<close>

text \<open>
  \<^verbatim>\<open>arr.map(obj => Todo.fromObject(obj))\<close>: the first element that throws ends the
  whole call. \<open>now k\<close> is the clock while element \<open>k\<close> is converted.
\<close>

fun map_fromObject :: "json list \<Rightarrow> (nat \<Rightarrow> safe_integer) \<Rightarrow> nat \<Rightarrow> error + Todo list" where
  "map_fromObject [] now k = Inr []"
| "map_fromObject (obj # objs) now k =
     (case fromObject obj (now k) of
        Inl e \<Rightarrow> Inl e
      | Inr t \<Rightarrow> (case map_fromObject objs now (Suc k) of
                   Inl e \<Rightarrow> Inl e
                 | Inr ts \<Rightarrow> Inr (t # ts)))"

text \<open>
  The body of the \<^verbatim>\<open>try\<close> of \<^verbatim>\<open>loadTodos\<close>: only an array has a \<^verbatim>\<open>map\<close> method, on any
  other parsed value the call throws a TypeError.
\<close>

definition parse_todos :: "stored \<Rightarrow> (nat \<Rightarrow> safe_integer) \<Rightarrow> error + Todo list" where
  "parse_todos raw now =
     (case JSON_parse raw of
        Inl e \<Rightarrow> Inl e
      | Inr arr \<Rightarrow> (case arr of JArr objs \<Rightarrow> map_fromObject objs now 0 | _ \<Rightarrow> Inl TypeError))"

text \<open>
  The part of \<^verbatim>\<open>loadTodos\<close> before the rendering (the accent colour, which does not
  touch the tasks, is left out): \<^verbatim>\<open>if (raw)\<close> skips a missing key and the empty string,
  and what the \<^verbatim>\<open>try\<close> throws is caught.
\<close>

definition read_todos :: "app \<Rightarrow> (nat \<Rightarrow> safe_integer) \<Rightarrow> app" where
  "read_todos st now =
     (case colorfulTodo (storage st) of
        None \<Rightarrow> st
      | Some EmptyText \<Rightarrow> st
      | Some raw \<Rightarrow> (case parse_todos raw now of
                      Inr ts \<Rightarrow> st\<lparr>todos := ts\<rparr>
                    | Inl e \<Rightarrow> st\<lparr>todos := []\<rparr>))"

text \<open>\<^verbatim>\<open>loadTodos\<close>: the call of \<^verbatim>\<open>renderTodos\<close> is after the \<^verbatim>\<open>try\<close>, not inside it.\<close>

definition loadTodos :: "app \<Rightarrow> (nat \<Rightarrow> safe_integer) \<Rightarrow> outcome" where
  "loadTodos st now = renderTodos (read_todos st now)"

section \<open>Operations on the collection\<close>

text \<open>
  \<^verbatim>\<open>addTodo\<close>: \<open>uuid\<close> is what \<^verbatim>\<open>generateUUID()\<close> returns, \<open>now\<close> what \<^verbatim>\<open>Date.now()\<close>
  returns.
\<close>

definition addTodo :: "app \<Rightarrow> string \<Rightarrow> safe_integer \<Rightarrow> string \<Rightarrow> string \<Rightarrow> outcome" where
  "addTodo st uuid now title_arg description_arg =
     (let newTodo = new_Todo (Some (JStr uuid)) (Some (JStr (trim title_arg)))
                      (Some (JStr (trim description_arg))) None None now;
          st1 = saveTodos (st\<lparr>todos := todos st @ [newTodo]\<rparr>)
      in case createTodoElement newTodo of
           Inl e \<Rightarrow> (Some e, st1)
         | Inr el \<Rightarrow> (None, st1\<lparr>listEl := listEl st1 @ [el]\<rparr>))"

text \<open>\<^verbatim>\<open>todos.findIndex(t => t.id === id)\<close>, with \<open>None\<close> for \<^verbatim>\<open>-1\<close>.\<close>

fun findIndex :: "('a \<Rightarrow> bool) \<Rightarrow> 'a list \<Rightarrow> nat option" where
  "findIndex p [] = None"
| "findIndex p (x # xs) =
     (if p x then Some 0 else (case findIndex p xs of None \<Rightarrow> None | Some k \<Rightarrow> Some (Suc k)))"

text \<open>The argument \<^verbatim>\<open>updates\<close> of \<^verbatim>\<open>updateTodo\<close>, a missing property being \<^verbatim>\<open>undefined\<close>.\<close>

record updates =
  u_title :: jsval
  u_description :: jsval
  u_completed :: jsval

text \<open>
  The three assignments of \<^verbatim>\<open>updateTodo\<close>: \<^verbatim>\<open>typeof\<close> is \<^verbatim>\<open>'string'\<close> for a \<open>JStr\<close>
  only and \<^verbatim>\<open>'boolean'\<close> for a \<open>JBool\<close> only.
\<close>

definition merge_updates :: "Todo \<Rightarrow> updates \<Rightarrow> Todo" where
  "merge_updates todo u =
     (let t1 = (case u_title u of Some (JStr s) \<Rightarrow> todo\<lparr>title := Some (JStr (trim s))\<rparr> | _ \<Rightarrow> todo);
          t2 = (case u_description u of
                  Some (JStr s) \<Rightarrow> t1\<lparr>description := Some (JStr (trim s))\<rparr> | _ \<Rightarrow> t1);
          t3 = (case u_completed u of Some (JBool b) \<Rightarrow> t2\<lparr>completed := Some (JBool b)\<rparr> | _ \<Rightarrow> t2)
      in t3)"

text \<open>\<^verbatim>\<open>updateTodo\<close>; the identifier passed is a string.\<close>

definition updateTodo :: "app \<Rightarrow> string \<Rightarrow> updates \<Rightarrow> outcome" where
  "updateTodo st i u =
     (case findIndex (\<lambda>t. id_todo t = Some (JStr i)) (todos st) of
        None \<Rightarrow> (None, st)
      | Some index \<Rightarrow>
          renderTodos (saveTodos
            (st\<lparr>todos := (todos st)[index := merge_updates (todos st ! index) u]\<rparr>)))"

subsection \<open>The selector of \<^verbatim>\<open>deleteTodo\<close>\<close>

text \<open>
  \<^verbatim>\<open>deleteTodo\<close> puts the identifier, as it is, between the quotes of the selector
  \<^verbatim>\<open>li[data-id="..."]\<close>. The characters that do not stand for themselves inside a quoted
  string of a selector: NUL, the line breaks LF, FF and CR, the double quote and the
  backslash.
\<close>

definition selector_special :: "char \<Rightarrow> bool" where
  "selector_special c = (of_char c \<in> {0, 10, 12, 13, 34, 92 :: nat})"

definition selector_plain :: "string \<Rightarrow> bool" where
  "selector_plain i = (\<not> list_ex selector_special i)"

definition is_alnum :: "char \<Rightarrow> bool" where
  "is_alnum c =
     (let n = (of_char c :: nat)
      in (48 \<le> n \<and> n \<le> 57) \<or> (65 \<le> n \<and> n \<le> 90) \<or> (97 \<le> n \<and> n \<le> 122))"

text \<open>
  Identifiers that certainly make no selector. When the first special character is a line
  break, the string is broken. When it is a double quote, the string ends there; if only
  ASCII letters and digits follow, they and the closing \<^verbatim>\<open>"]\<close> of the pattern are left
  over inside the brackets, where nothing but a flag \<^verbatim>\<open>i\<close> or \<^verbatim>\<open>s\<close> may follow the value.
\<close>

definition selector_malformed :: "string \<Rightarrow> bool" where
  "selector_malformed i =
     (case dropWhile (\<lambda>c. \<not> selector_special c) i of
        [] \<Rightarrow> False
      | c # r \<Rightarrow>
          of_char c \<in> {10, 12, 13 :: nat} \<or> (of_char c = (34 :: nat) \<and> list_all is_alnum r))"

text \<open>
  \<^verbatim>\<open>listEl.querySelector\<close> on that selector, giving the index of the item found. For a
  plain identifier it is the first item whose \<^verbatim>\<open>data-id\<close> is the identifier; for a
  malformed one it throws a SyntaxError; for the remaining identifiers (escapes, further
  selectors after a closing quote) the answer is the selector engine's, \<open>engine\<close>.
\<close>

definition querySelector ::
  "(string \<Rightarrow> element list \<Rightarrow> error + nat option) \<Rightarrow> string \<Rightarrow> element list \<Rightarrow> error + nat option"
where
  "querySelector engine i els =
     (if selector_plain i then Inr (findIndex (\<lambda>e. data_id e = i) els)
      else if selector_malformed i then Inl SyntaxError
      else engine i els)"

text \<open>Adding the class \<^verbatim>\<open>removing\<close> to the item found.\<close>

definition add_removing :: "nat \<Rightarrow> element list \<Rightarrow> element list" where
  "add_removing k els = (if k < length els then els[k := (els ! k)\<lparr>class_removing := True\<rparr>] else els)"

text \<open>
  \<^verbatim>\<open>deleteTodo\<close>. When the lookup throws, nothing has been changed yet. An item found
  keeps the class \<^verbatim>\<open>removing\<close> until its animation ends; the collection is filtered and
  saved on both paths.
\<close>

definition deleteTodo ::
  "(string \<Rightarrow> element list \<Rightarrow> error + nat option) \<Rightarrow> app \<Rightarrow> string \<Rightarrow> outcome"
where
  "deleteTodo engine st i =
     (case querySelector engine i (listEl st) of
        Inl e \<Rightarrow> (Some e, st)
      | Inr None \<Rightarrow>
          (None, saveTodos (st\<lparr>todos := filter (\<lambda>t. id_todo t \<noteq> Some (JStr i)) (todos st)\<rparr>))
      | Inr (Some li) \<Rightarrow>
          (None, saveTodos (st\<lparr>listEl := add_removing li (listEl st),
                              todos := filter (\<lambda>t. id_todo t \<noteq> Some (JStr i)) (todos st)\<rparr>)))"

text \<open>\<^verbatim>\<open>toggleComplete\<close>: the first task with the identifier gets \<^verbatim>\<open>!todo.completed\<close>.\<close>

definition toggleComplete :: "app \<Rightarrow> string \<Rightarrow> outcome" where
  "toggleComplete st i =
     (case findIndex (\<lambda>t. id_todo t = Some (JStr i)) (todos st) of
        None \<Rightarrow> (None, st)
      | Some index \<Rightarrow>
          renderTodos (saveTodos
            (st\<lparr>todos := (todos st)[index :=
                 (todos st ! index)\<lparr>completed := Some (JBool (\<not> truthy (completed (todos st ! index))))\<rparr>]\<rparr>)))"

section \<open>Edit mode and the form\<close>

text \<open>\<^verbatim>\<open>exitEditMode\<close>: the list is rebuilt, so the class \<^verbatim>\<open>editing\<close> goes with the old item.\<close>

definition exitEditMode :: "app \<Rightarrow> outcome" where
  "exitEditMode st = renderTodos st"

text \<open>
  The handler \<^verbatim>\<open>commit\<close> of \<^verbatim>\<open>enterEditMode\<close>, for the task whose \<^verbatim>\<open>id\<close> is the
  string \<open>i\<close>; \<open>title_value\<close> and \<open>desc_value\<close> are the values of the two edit fields.
\<close>

definition commit ::
  "(string \<Rightarrow> element list \<Rightarrow> error + nat option) \<Rightarrow> app \<Rightarrow> string \<Rightarrow> string \<Rightarrow> string \<Rightarrow> outcome"
where
  "commit engine st i title_value desc_value =
     (let newTitle = trim title_value; newDesc = trim desc_value
      in if newTitle \<noteq> []
         then and_then (updateTodo st i
                \<lparr>u_title = Some (JStr newTitle), u_description = Some (JStr newDesc), u_completed = None\<rparr>)
                exitEditMode
         else and_then (deleteTodo engine st i) exitEditMode)"

definition cancel :: "app \<Rightarrow> outcome" where
  "cancel st = exitEditMode st"

text \<open>The \<^verbatim>\<open>submit\<close> handler of the form.\<close>

definition submit :: "app \<Rightarrow> string \<Rightarrow> safe_integer \<Rightarrow> outcome" where
  "submit st uuid now =
     (let title_v = trim (titleInput st); desc = trim (descInput st)
      in if title_v = [] then (None, st)
         else and_then (addTodo st uuid now title_v desc)
                (\<lambda>st1. (None, st1\<lparr>titleInput := [], descInput := []\<rparr>)))"

section \<open>Sequences of operations\<close>

datatype operation =
    Create string safe_integer string string
  | Update string updates
  | Toggle string
  | Delete string

fun apply_operation ::
  "(string \<Rightarrow> element list \<Rightarrow> error + nat option) \<Rightarrow> app \<Rightarrow> operation \<Rightarrow> outcome"
where
  "apply_operation engine st (Create uuid now t d) = addTodo st uuid now t d"
| "apply_operation engine st (Update i u) = updateTodo st i u"
| "apply_operation engine st (Toggle i) = toggleComplete st i"
| "apply_operation engine st (Delete i) = deleteTodo engine st i"

text \<open>
  Each operation is the work of one event handler; the next event finds the state the
  handler left, whether it returned or threw.
\<close>

fun run ::
  "(string \<Rightarrow> element list \<Rightarrow> error + nat option) \<Rightarrow> app \<Rightarrow> operation list \<Rightarrow> app"
where
  "run engine st [] = st"
| "run engine st (x # xs) = run engine (snd (apply_operation engine st x)) xs"

text \<open>
  What a task is created with and must keep: its \<^verbatim>\<open>id\<close> and its \<^verbatim>\<open>createdAt\<close>; and the
  pairs that the creations of a sequence of operations assign, in order.
\<close>

definition stamp :: "Todo \<Rightarrow> jsval \<times> jsval" where
  "stamp t = (id_todo t, createdAt t)"

fun created :: "operation list \<Rightarrow> (jsval \<times> jsval) list" where
  "created [] = []"
| "created (Create uuid now t d # xs) = (Some (JStr uuid), Some (JNum now)) # created xs"
| "created (x # xs) = created xs"

section \<open>Example states\<close>

definition st0 :: app where
  "st0 = \<lparr> todos = [], currentFilter = FilterCompleted, listEl = [],
           storage = \<lparr> colorfulTodo = None, accepts_writes = True \<rparr>,
           titleInput = [], descInput = [] \<rparr>"

definition one_task :: app where
  "one_task = \<lparr> todos = [\<lparr> id_todo = Some (JStr ''a''), title = Some (JStr ''Buy milk''),
                            description = Some (JStr []), completed = Some (JBool False),
                            createdAt = Some (JNum (num 1)) \<rparr>],
                currentFilter = FilterAll, listEl = [],
                storage = \<lparr> colorfulTodo = None, accepts_writes = True \<rparr>,
                titleInput = [], descInput = [] \<rparr>"


definition blank_form :: app where
  "blank_form = one_task\<lparr>titleInput := ''  '', descInput := ''x''\<rparr>"

text \<open>An identifier with a double quote in it, \<^verbatim>\<open>x"y\<close>, and a state whose task has it.\<close>

definition quoted_id :: string where
  "quoted_id = [CHR ''x'', CHR 0x22, CHR ''y'']"

definition quoted_task :: app where
  "quoted_task = \<lparr> todos = [\<lparr> id_todo = Some (JStr quoted_id), title = Some (JStr ''Tea''),
                               description = Some (JStr []), completed = Some (JBool False),
                               createdAt = Some (JNum (num 1)) \<rparr>],
                   currentFilter = FilterAll,
                   listEl = [\<lparr> data_id = quoted_id, class_completed = False, class_removing = False,
                               title_text = ''Tea'', desc_text = [], desc_hidden = True,
                               checkbox_checked = False \<rparr>],
                   storage = \<lparr> colorfulTodo = None, accepts_writes = True \<rparr>,
                   titleInput = [], descInput = [] \<rparr>"

text \<open>A selector engine that finds nothing, for the examples.\<close>

definition finds_nothing :: "string \<Rightarrow> element list \<Rightarrow> error + nat option" where
  "finds_nothing i els = Inr None"


section \<open>Basic facts\<close>

lemma is_space_blank [simp]: "is_space CHR '' ''"
  by (simp add: is_space_def)

lemma dropWhile_trim: "dropWhile is_space (trim s) = trim s"
proof -
  define xs where "xs = dropWhile is_space s"
  define ys where "ys = dropWhile is_space (rev xs)"
  have t: "trim s = rev ys" by (simp add: trim_def xs_def ys_def)
  show ?thesis
  proof (cases "ys = []")
    case True
    then show ?thesis by (simp add: t)
  next
    case False
    have "rev xs = takeWhile is_space (rev xs) @ ys" by (simp add: ys_def)
    then have "xs = rev ys @ rev (takeWhile is_space (rev xs))"
      by (metis rev_append rev_rev_ident)
    with False have h: "hd (rev ys) = hd xs" by (metis hd_append2 rev_is_Nil_conv)
    from False have "xs \<noteq> []" by (auto simp: ys_def)
    then have "\<not> is_space (hd xs)" unfolding xs_def by (rule hd_dropWhile)
    with h False show ?thesis by (simp add: t dropWhile_eq_self_iff)
  qed
qed

lemma trim_idem: "trim (trim s) = trim s"
proof -
  have "rev (trim s) = dropWhile is_space (rev (dropWhile is_space s))"
    by (simp add: trim_def)
  then have "dropWhile is_space (rev (trim s)) = rev (trim s)"
    by simp
  then show ?thesis
    using dropWhile_trim [of s] by (metis rev_rev_ident trim_def)
qed

lemma findIndex_Some:
  "findIndex p xs = Some k \<Longrightarrow> k < length xs \<and> p (xs ! k) \<and> (\<forall>j<k. \<not> p (xs ! j))"
proof (induction xs arbitrary: k)
  case Nil
  then show ?case by simp
next
  case (Cons x xs)
  show ?case
  proof (cases "p x")
    case True
    with Cons.prems show ?thesis by simp
  next
    case False
    with Cons.prems obtain k' where k': "findIndex p xs = Some k'" "k = Suc k'"
      by (auto split: option.splits)
    from Cons.IH [OF k'(1)] False k'(2) show ?thesis
      by (auto simp: less_Suc_eq_0_disj)
  qed
qed

lemma findIndex_None: "findIndex p xs = None \<longleftrightarrow> (\<forall>x\<in>set xs. \<not> p x)"
  by (induction xs) (auto split: option.splits)

lemma todos_saveTodos [simp]: "todos (saveTodos st) = todos st"
  by (simp add: saveTodos_def split: sum.splits)

lemma currentFilter_saveTodos [simp]: "currentFilter (saveTodos st) = currentFilter st"
  by (simp add: saveTodos_def split: sum.splits)

lemma listEl_saveTodos [simp]: "listEl (saveTodos st) = listEl st"
  by (simp add: saveTodos_def split: sum.splits)

lemma snd_renderTodos:
  "snd (renderTodos st) =
     st\<lparr>listEl := snd (append_items (filtered (currentFilter st) (todos st)) [])\<rparr>"
  by (simp add: renderTodos_def split: prod.splits)

lemma fst_renderTodos:
  "fst (renderTodos st) = fst (append_items (filtered (currentFilter st) (todos st)) [])"
  by (simp add: renderTodos_def split: prod.splits)

lemma todos_renderTodos [simp]: "todos (snd (renderTodos st)) = todos st"
  by (simp add: snd_renderTodos)

lemma currentFilter_renderTodos [simp]: "currentFilter (snd (renderTodos st)) = currentFilter st"
  by (simp add: snd_renderTodos)

lemma storage_renderTodos [simp]: "storage (snd (renderTodos st)) = storage st"
  by (simp add: snd_renderTodos)

lemma todos_and_then_renderTodos [simp]: "todos (snd (and_then r renderTodos)) = todos (snd r)"
  by (cases r) (simp add: and_then_def split: option.splits)

lemma snd_append_items:
  "map Inr (snd (append_items ts els)) =
     map Inr els @ takeWhile (\<lambda>r. \<not> isl r) (map createTodoElement ts)"
  by (induction ts arbitrary: els) (auto split: sum.splits)


lemma todos_updateTodo:
  "findIndex (\<lambda>t. id_todo t = Some (JStr i)) (todos st) = Some k \<Longrightarrow>
   todos (snd (updateTodo st i u)) = (todos st)[k := merge_updates (todos st ! k) u]"
  by (simp add: updateTodo_def)

lemma deleteTodo_plain:
  "selector_plain i \<Longrightarrow>
   fst (deleteTodo engine st i) = None
   \<and> todos (snd (deleteTodo engine st i)) = filter (\<lambda>t. id_todo t \<noteq> Some (JStr i)) (todos st)"
  by (simp add: deleteTodo_def querySelector_def split: option.splits)

lemma todos_deleteTodo:
  "todos (snd (deleteTodo engine st i)) =
     (if fst (deleteTodo engine st i) = None
      then filter (\<lambda>t. id_todo t \<noteq> Some (JStr i)) (todos st) else todos st)"
  by (simp add: deleteTodo_def split: sum.splits option.splits)

lemma deleteTodo_malformed:
  "selector_malformed i \<Longrightarrow> \<not> selector_plain i \<Longrightarrow> deleteTodo engine st i = (Some SyntaxError, st)"
  by (simp add: deleteTodo_def querySelector_def)

lemma filtered_subseq: "subseq (filtered f ts) ts"
  by (simp add: filtered_def)

lemma merge_updates_strings:
  "merge_updates t \<lparr>u_title = Some (JStr a), u_description = Some (JStr b), u_completed = None\<rparr>
     = t\<lparr>title := Some (JStr (trim a)), description := Some (JStr (trim b))\<rparr>"
  by (simp add: merge_updates_def)

lemma createTodoElement_strings:
  "createTodoElement \<lparr> id_todo = Some (JStr i), title = Some (JStr t), description = Some (JStr d),
                        completed = c, createdAt = a \<rparr> =
     Inr \<lparr> data_id = i, class_completed = truthy c, class_removing = False, title_text = t,
           desc_text = d, desc_hidden = (d = []), checkbox_checked = truthy c \<rparr>"
  by (simp add: createTodoElement_def ToString_def textContent_of_def nullish_def)

lemma quoted_id_malformed: "selector_malformed quoted_id \<and> \<not> selector_plain quoted_id"
  by (simp add: selector_malformed_def selector_plain_def quoted_id_def selector_special_def
      is_alnum_def)

lemma addTodo_returns:
  "addTodo st uuid now t d =
     (None, (saveTodos (st\<lparr>todos := todos st @
         [\<lparr> id_todo = Some (JStr uuid), title = Some (JStr (trim t)),
            description = Some (JStr (trim d)), completed = Some (JBool False),
            createdAt = Some (JNum now) \<rparr>]\<rparr>))
       \<lparr>listEl := listEl st @
         [\<lparr> data_id = uuid, class_completed = False, class_removing = False,
            title_text = trim t, desc_text = trim d, desc_hidden = (trim d = []),
            checkbox_checked = False \<rparr>]\<rparr>)"
  by (simp add: addTodo_def new_Todo_def Let_def createTodoElement_strings)

section \<open>The filtered view\<close>

text \<open>
  Claim C4. \<^verbatim>\<open>renderTodos\<close> derives the visible tasks without touching the collection,
  the filter or the store. For tasks whose \<^verbatim>\<open>completed\<close> is a boolean, the filter
  \<^verbatim>\<open>active\<close> shows exactly the tasks with \<^verbatim>\<open>completed = false\<close>, \<^verbatim>\<open>completed\<close> exactly
  those with \<^verbatim>\<open>completed = true\<close>, and \<^verbatim>\<open>all\<close> the whole sequence; what is shown is a
  subsequence of the collection, in the collection's order. The displayed items are the
  items of the visible tasks, in order, up to the first whose item cannot be made.
\<close>

theorem renderTodos_shows_filtered:
  assumes "\<forall>t\<in>set (todos st). \<exists>b. completed t = Some (JBool b)"
  shows "todos (snd (renderTodos st)) = todos st
       \<and> currentFilter (snd (renderTodos st)) = currentFilter st
       \<and> storage (snd (renderTodos st)) = storage st
       \<and> map Inr (listEl (snd (renderTodos st))) =
           takeWhile (\<lambda>r. \<not> isl r) (map createTodoElement (filtered (currentFilter st) (todos st)))
       \<and> filtered FilterActive (todos st) = filter (\<lambda>t. completed t = Some (JBool False)) (todos st)
       \<and> filtered FilterCompleted (todos st) = filter (\<lambda>t. completed t = Some (JBool True)) (todos st)
       \<and> filtered FilterAll (todos st) = todos st
       \<and> subseq (filtered (currentFilter st) (todos st)) (todos st)"
proof -
  have a: "filtered FilterActive (todos st) = filter (\<lambda>t. completed t = Some (JBool False)) (todos st)"
    unfolding filtered_def using assms by (intro filter_cong) auto
  have c: "filtered FilterCompleted (todos st) = filter (\<lambda>t. completed t = Some (JBool True)) (todos st)"
    unfolding filtered_def using assms by (intro filter_cong) auto
  have l: "filtered FilterAll (todos st) = todos st"
    by (simp add: filtered_def)
  have e: "map Inr (listEl (snd (renderTodos st))) =
           takeWhile (\<lambda>r. \<not> isl r) (map createTodoElement (filtered (currentFilter st) (todos st)))"
    using snd_append_items [of "filtered (currentFilter st) (todos st)" "[]"]
    by (simp add: snd_renderTodos)
  show ?thesis
    using a c l e filtered_subseq [of "currentFilter st" "todos st"]
    by simp
qed

theorem renderTodos_shows_filtered_witness:
  "filtered FilterActive (todos one_task) = todos one_task
   \<and> filtered FilterCompleted (todos one_task) = []
   \<and> todos (snd (renderTodos one_task)) = todos one_task"
proof -
  have h: "\<forall>t\<in>set (todos one_task). \<exists>b. completed t = Some (JBool b)"
    by (auto simp: one_task_def)
  have a: "filter (\<lambda>t. completed t = Some (JBool False)) (todos one_task) = todos one_task"
    by (simp add: one_task_def)
  have c: "filter (\<lambda>t. completed t = Some (JBool True)) (todos one_task) = []"
    by (simp add: one_task_def)
  from renderTodos_shows_filtered [OF h]
  have "filtered FilterActive (todos one_task) = filter (\<lambda>t. completed t = Some (JBool False)) (todos one_task)"
    and "filtered FilterCompleted (todos one_task) = filter (\<lambda>t. completed t = Some (JBool True)) (todos one_task)"
    and "todos (snd (renderTodos one_task)) = todos one_task"
    by blast+
  then show ?thesis
    by (simp only: a c)
qed

section \<open>Updating a task\<close>

text \<open>
  Claim C1, as stated, fails: \<^verbatim>\<open>updateTodo\<close> with a blank title returns, keeps the task
  and stores the empty title, where \<^verbatim>\<open>deleteTodo\<close> would have removed it.
\<close>

theorem updateTodo_empty_title_counterexample:
  "trim ''  '' = []
   \<and> fst (updateTodo one_task ''a'' \<lparr>u_title = Some (JStr ''  ''), u_description = None, u_completed = None\<rparr>) = None
   \<and> todos (snd (updateTodo one_task ''a'' \<lparr>u_title = Some (JStr ''  ''), u_description = None, u_completed = None\<rparr>))
       = [\<lparr> id_todo = Some (JStr ''a''), title = Some (JStr []),
            description = Some (JStr []), completed = Some (JBool False),
            createdAt = Some (JNum (num 1)) \<rparr>]
   \<and> todos (snd (deleteTodo finds_nothing one_task ''a'')) = []"
proof -
  have t: "trim ''  '' = []" by (simp add: trim_def)
  have f: "findIndex (\<lambda>t. id_todo t = Some (JStr ''a'')) (todos one_task) = Some 0"
    by (simp add: one_task_def)
  have u: "todos (snd (updateTodo one_task ''a'' \<lparr>u_title = Some (JStr ''  ''), u_description = None, u_completed = None\<rparr>))
       = [\<lparr> id_todo = Some (JStr ''a''), title = Some (JStr []),
            description = Some (JStr []), completed = Some (JBool False),
            createdAt = Some (JNum (num 1)) \<rparr>]"
    by (simp add: todos_updateTodo [OF f] merge_updates_def t) (simp add: one_task_def)
  have r: "fst (updateTodo one_task ''a'' \<lparr>u_title = Some (JStr ''  ''), u_description = None, u_completed = None\<rparr>) = None"
    by (simp add: updateTodo_def one_task_def fst_renderTodos filtered_def merge_updates_def
        createTodoElement_strings)
  have p: "selector_plain ''a''" by (simp add: selector_plain_def selector_special_def)
  have d: "todos (snd (deleteTodo finds_nothing one_task ''a'')) = []"
    using deleteTodo_plain [OF p, of finds_nothing one_task] by (simp add: one_task_def)
  from t r u d show ?thesis by blast
qed

text \<open>
  Claim C1, amended. For an existing identifier (first at index \<open>k\<close>), \<^verbatim>\<open>updateTodo\<close>
  with a string title stores the trimmed title in that task, empty or not: the collection
  keeps its length, the task keeps its identifier, and every other task is untouched.
\<close>

theorem updateTodo_stores_trimmed_title:
  assumes "findIndex (\<lambda>t. id_todo t = Some (JStr i)) (todos st) = Some k"
    and "u_title u = Some (JStr s)"
  shows "length (todos (snd (updateTodo st i u))) = length (todos st)
       \<and> id_todo (todos (snd (updateTodo st i u)) ! k) = Some (JStr i)
       \<and> title (todos (snd (updateTodo st i u)) ! k) = Some (JStr (trim s))
       \<and> (\<forall>j<length (todos st). j \<noteq> k \<longrightarrow> todos (snd (updateTodo st i u)) ! j = todos st ! j)"
proof -
  from findIndex_Some [OF assms(1)]
  have k: "k < length (todos st)" and idk: "id_todo (todos st ! k) = Some (JStr i)" by simp_all
  have m: "id_todo (merge_updates t u) = id_todo t \<and> title (merge_updates t u) = Some (JStr (trim s))" for t
    using assms(2) by (simp add: merge_updates_def Let_def split: option.splits json.splits)
  show ?thesis
    using k idk m by (simp add: todos_updateTodo [OF assms(1)])
qed

theorem updateTodo_stores_trimmed_title_witness:
  "findIndex (\<lambda>t. id_todo t = Some (JStr ''a'')) (todos one_task) = Some 0
   \<and> title (todos (snd (updateTodo one_task ''a''
      \<lparr>u_title = Some (JStr ''  ''), u_description = None, u_completed = None\<rparr>)) ! 0) = Some (JStr [])
   \<and> length (todos (snd (updateTodo one_task ''a''
      \<lparr>u_title = Some (JStr ''  ''), u_description = None, u_completed = None\<rparr>))) = 1"
proof -
  have f: "findIndex (\<lambda>t. id_todo t = Some (JStr ''a'')) (todos one_task) = Some 0"
    by (simp add: one_task_def)
  have u: "u_title \<lparr>u_title = Some (JStr ''  ''), u_description = None, u_completed = None\<rparr> = Some (JStr ''  '')"
    by simp
  have t: "trim ''  '' = []" by (simp add: trim_def)
  have l: "length (todos one_task) = 1" by (simp add: one_task_def)
  show ?thesis
    using f updateTodo_stores_trimmed_title [OF f u] t l by simp
qed

section \<open>Creating a task\<close>

text \<open>
  Claim C2, as stated, fails: \<^verbatim>\<open>addTodo\<close> with a blank title raises nothing, appends a
  task whose title is empty and writes it to the store.
\<close>

theorem addTodo_blank_title_counterexample:
  "trim ''  '' = []
   \<and> fst (addTodo st0 ''u1'' (num 5) ''  '' []) = None
   \<and> todos (snd (addTodo st0 ''u1'' (num 5) ''  '' [])) =
       [\<lparr> id_todo = Some (JStr ''u1''), title = Some (JStr []), description = Some (JStr []),
          completed = Some (JBool False), createdAt = Some (JNum (num 5)) \<rparr>]
   \<and> todos st0 = []
   \<and> colorfulTodo (storage st0) = None
   \<and> colorfulTodo (storage (snd (addTodo st0 ''u1'' (num 5) ''  '' []))) =
       Some (JsonText (JArr [JObj [(''id'', JStr ''u1''), (''title'', JStr []),
         (''description'', JStr []), (''completed'', JBool False), (''createdAt'', JNum (num 5))]]))"
  by (simp add: addTodo_returns) (simp add: trim_def st0_def saveTodos_def setItem_def
      JSON_stringify_def stringify_Todo_def own_props_def)

text \<open>
  Claim C2, amended. For every title whose trimmed form is empty, the \<^verbatim>\<open>submit\<close> handler
  of the form returns before \<^verbatim>\<open>addTodo\<close>: the whole state (collection, displayed list,
  store, form fields) is as it was, and nothing is raised.
\<close>

theorem submit_blank_title_unchanged:
  assumes "trim (titleInput st) = []"
  shows "submit st uuid now = (None, st)"
  using assms by (simp add: submit_def)

theorem submit_blank_title_unchanged_witness:
  "submit blank_form ''u1'' (num 5) = (None, blank_form)"
proof -
  have "trim (titleInput blank_form) = []"
    by (simp add: blank_form_def trim_def)
  then show ?thesis by (rule submit_blank_title_unchanged)
qed

text \<open>
  Claim C5 fails on the code. With the filter \<^verbatim>\<open>completed\<close> selected, an empty
  collection and an empty list, \<^verbatim>\<open>addTodo\<close> appends the item of the new task, which the
  filter excludes: no task is visible, one item is displayed.
\<close>

theorem addTodo_appends_when_filter_excludes:
  "currentFilter st0 = FilterCompleted
   \<and> todos st0 = [] \<and> listEl st0 = []
   \<and> fst (addTodo st0 ''u1'' (num 5) ''Buy milk'' []) = None
   \<and> filtered (currentFilter (snd (addTodo st0 ''u1'' (num 5) ''Buy milk'' [])))
        (todos (snd (addTodo st0 ''u1'' (num 5) ''Buy milk'' []))) = []
   \<and> listEl (snd (addTodo st0 ''u1'' (num 5) ''Buy milk'' [])) =
       [\<lparr> data_id = ''u1'', class_completed = False, class_removing = False,
          title_text = ''Buy milk'', desc_text = [], desc_hidden = True,
          checkbox_checked = False \<rparr>]"
  by (simp add: addTodo_returns) (simp add: st0_def filtered_def trim_def is_space_def)

section \<open>Deleting a task\<close>

text \<open>
  For an identifier without special characters, \<^verbatim>\<open>deleteTodo\<close> returns, and the
  collection is the old one without the tasks that have the identifier: none of them is
  left, every other task stays. For an identifier that no task has, the collection is as it
  was, and when no item is displayed for it either, the call does nothing but save.
\<close>

lemma deleteTodo_plain_id:
  assumes "selector_plain i"
  shows "fst (deleteTodo engine st i) = None
   \<and> ((\<forall>t\<in>set (todos st). id_todo t \<noteq> Some (JStr i)) \<longrightarrow>
        todos (snd (deleteTodo engine st i)) = todos st)
   \<and> ((\<forall>t\<in>set (todos st). id_todo t \<noteq> Some (JStr i)) \<and> findIndex (\<lambda>e. data_id e = i) (listEl st) = None
        \<longrightarrow> deleteTodo engine st i = (None, saveTodos st))
   \<and> todos (snd (deleteTodo engine st i)) = filter (\<lambda>t. id_todo t \<noteq> Some (JStr i)) (todos st)
   \<and> (\<forall>t\<in>set (todos (snd (deleteTodo engine st i))). id_todo t \<noteq> Some (JStr i))
   \<and> (\<forall>t\<in>set (todos st). id_todo t \<noteq> Some (JStr i) \<longrightarrow> t \<in> set (todos (snd (deleteTodo engine st i))))
   \<and> currentFilter (snd (deleteTodo engine st i)) = currentFilter st"
proof -
  let ?keep = "\<lambda>t. id_todo t \<noteq> Some (JStr i)"
  note p = deleteTodo_plain [OF assms, of engine st]
  have f: "(\<forall>t\<in>set (todos st). ?keep t) \<Longrightarrow> filter ?keep (todos st) = todos st"
    by (rule filter_True) simp
  have s: "deleteTodo engine st i = (None, saveTodos st)"
    if "\<forall>t\<in>set (todos st). ?keep t" and "findIndex (\<lambda>e. data_id e = i) (listEl st) = None"
    using that f assms by (simp add: deleteTodo_def querySelector_def)
  have c: "currentFilter (snd (deleteTodo engine st i)) = currentFilter st"
    using assms by (simp add: deleteTodo_def querySelector_def split: option.splits)
  show ?thesis
    using p f s c by simp
qed

text \<open>
  Claim C9 fails on the code, at the identifier \<^verbatim>\<open>x"y\<close>. The selector
  \<^verbatim>\<open>li[data-id="x"y"]\<close> is no selector, whatever the selector engine: \<^verbatim>\<open>querySelector\<close>
  throws a SyntaxError before the collection is filtered or saved. The task that has the
  identifier is not removed; and for a collection without it, the call raises all the
  same.
\<close>

theorem deleteTodo_fails_on_quoted_id:
  "todos quoted_task =
       [\<lparr> id_todo = Some (JStr quoted_id), title = Some (JStr ''Tea''),
          description = Some (JStr []), completed = Some (JBool False),
          createdAt = Some (JNum (num 1)) \<rparr>]
   \<and> (\<forall>engine. deleteTodo engine quoted_task quoted_id = (Some SyntaxError, quoted_task))
   \<and> findIndex (\<lambda>t. id_todo t = Some (JStr quoted_id)) (todos one_task) = None
   \<and> (\<forall>engine. deleteTodo engine one_task quoted_id = (Some SyntaxError, one_task))"
proof -
  have l: "todos quoted_task =
       [\<lparr> id_todo = Some (JStr quoted_id), title = Some (JStr ''Tea''),
          description = Some (JStr []), completed = Some (JBool False),
          createdAt = Some (JNum (num 1)) \<rparr>]"
    by (simp add: quoted_task_def)
  have a: "findIndex (\<lambda>t. id_todo t = Some (JStr quoted_id)) (todos one_task) = None"
    by (simp add: one_task_def quoted_id_def)
  from a l quoted_id_malformed show ?thesis
    by (simp add: deleteTodo_malformed)
qed

section \<open>Committing an edit\<close>

text \<open>
  For a task of the collection (the first with identifier \<open>i\<close>, at index \<open>k\<close>),
  \<^verbatim>\<open>commit\<close> trims both fields. With a trimmed title that is not empty it is
  \<^verbatim>\<open>updateTodo\<close> on the trimmed values, then \<^verbatim>\<open>exitEditMode\<close>: the task gets the trimmed
  title and description, and its title is not empty. With an empty trimmed title it is
  \<^verbatim>\<open>deleteTodo\<close>, then \<^verbatim>\<open>exitEditMode\<close>; for an identifier without special characters
  no task with the identifier is left.
\<close>

lemma commit_updates_or_deletes:
  assumes "findIndex (\<lambda>t. id_todo t = Some (JStr i)) (todos st) = Some k"
  shows "(trim tv \<noteq> [] \<longrightarrow>
            commit engine st i tv dv = and_then (updateTodo st i
              \<lparr>u_title = Some (JStr (trim tv)), u_description = Some (JStr (trim dv)), u_completed = None\<rparr>)
              exitEditMode
          \<and> todos (snd (commit engine st i tv dv)) =
              (todos st)[k := (todos st ! k)\<lparr>title := Some (JStr (trim tv)),
                                              description := Some (JStr (trim dv))\<rparr>]
          \<and> title (todos (snd (commit engine st i tv dv)) ! k) \<noteq> Some (JStr []))
       \<and> (trim tv = [] \<longrightarrow>
            commit engine st i tv dv = and_then (deleteTodo engine st i) exitEditMode)
       \<and> (trim tv = [] \<and> selector_plain i \<longrightarrow>
            fst (deleteTodo engine st i) = None
          \<and> todos (snd (commit engine st i tv dv)) = filter (\<lambda>t. id_todo t \<noteq> Some (JStr i)) (todos st)
          \<and> (\<forall>t\<in>set (todos (snd (commit engine st i tv dv))). id_todo t \<noteq> Some (JStr i)))"
proof -
  from findIndex_Some [OF assms] have k: "k < length (todos st)" by simp
  have e: "exitEditMode = renderTodos" by (rule ext) (simp add: exitEditMode_def)
  have u: "trim tv \<noteq> [] \<Longrightarrow> todos (snd (commit engine st i tv dv)) =
              (todos st)[k := (todos st ! k)\<lparr>title := Some (JStr (trim tv)),
                                              description := Some (JStr (trim dv))\<rparr>]"
    using todos_updateTodo [OF assms]
    by (simp add: commit_def e merge_updates_strings trim_idem)
  have d: "trim tv = [] \<Longrightarrow> selector_plain i \<Longrightarrow>
      todos (snd (commit engine st i tv dv)) = filter (\<lambda>t. id_todo t \<noteq> Some (JStr i)) (todos st)"
    using deleteTodo_plain [of i engine st] by (simp add: commit_def e)
  show ?thesis
    using k u d deleteTodo_plain [of i engine st]
    by (auto simp: commit_def)
qed

text \<open>
  Claim C3 fails on the code, for a task whose identifier is \<^verbatim>\<open>x"y\<close>, as
  \<^verbatim>\<open>Todo.fromObject\<close> makes it from a stored object. Its item is displayed; \<^verbatim>\<open>commit\<close>
  with a blank title calls \<^verbatim>\<open>deleteTodo\<close>, which throws a SyntaxError: the task stays in
  the collection and \<^verbatim>\<open>exitEditMode\<close> is not reached.
\<close>

theorem commit_fails_on_quoted_id:
  "fromObject (JObj [(''id'', JStr quoted_id), (''title'', JStr ''Tea'')]) (num 1) =
       Inr \<lparr> id_todo = Some (JStr quoted_id), title = Some (JStr ''Tea''),
            description = Some (JStr []), completed = Some (JBool False),
            createdAt = Some (JNum (num 1)) \<rparr>
   \<and> todos quoted_task =
       [\<lparr> id_todo = Some (JStr quoted_id), title = Some (JStr ''Tea''),
          description = Some (JStr []), completed = Some (JBool False),
          createdAt = Some (JNum (num 1)) \<rparr>]
   \<and> fst (renderTodos quoted_task) = None
   \<and> listEl (snd (renderTodos quoted_task)) = listEl quoted_task
   \<and> trim ''  '' = []
   \<and> (\<forall>engine. commit engine quoted_task quoted_id ''  '' [] = (Some SyntaxError, quoted_task))"
proof -
  have o: "fromObject (JObj [(''id'', JStr quoted_id), (''title'', JStr ''Tea'')]) (num 1) =
       Inr \<lparr> id_todo = Some (JStr quoted_id), title = Some (JStr ''Tea''),
            description = Some (JStr []), completed = Some (JBool False),
            createdAt = Some (JNum (num 1)) \<rparr>"
    by (simp add: fromObject_def new_Todo_def get_prop_def coalesce_def nullish_def)
  have l: "todos quoted_task =
       [\<lparr> id_todo = Some (JStr quoted_id), title = Some (JStr ''Tea''),
          description = Some (JStr []), completed = Some (JBool False),
          createdAt = Some (JNum (num 1)) \<rparr>]"
    by (simp add: quoted_task_def)
  have r: "renderTodos quoted_task = (None, quoted_task)"
    by (simp add: renderTodos_def quoted_task_def filtered_def createTodoElement_strings)
  have t: "trim ''  '' = []" by (simp add: trim_def)
  have c: "commit engine quoted_task quoted_id ''  '' [] = (Some SyntaxError, quoted_task)" for engine
    using quoted_id_malformed
    by (simp add: commit_def t deleteTodo_malformed and_then_def)
  from o l r t c show ?thesis by simp
qed

section \<open>Loading and saving\<close>

lemma fromObject_stringify_Todo:
  assumes "\<not> nullish (description t)" "\<not> nullish (completed t)" "\<not> nullish (createdAt t)"
  shows "fromObject (stringify_Todo t) now = Inr t"
proof -
  obtain d c a where dca: "description t = Some d" "completed t = Some c" "createdAt t = Some a"
    "d \<noteq> JNull" "c \<noteq> JNull" "a \<noteq> JNull"
    using assms by (auto simp: nullish_def)
  have i: "get_prop (stringify_Todo t) ''id'' = id_todo t"
    by (cases "id_todo t"; cases "title t") (simp_all add: get_prop_def stringify_Todo_def own_props_def dca)
  have ti: "get_prop (stringify_Todo t) ''title'' = title t"
    by (cases "id_todo t"; cases "title t") (simp_all add: get_prop_def stringify_Todo_def own_props_def dca)
  have de: "get_prop (stringify_Todo t) ''description'' = Some d"
    by (cases "id_todo t"; cases "title t") (simp_all add: get_prop_def stringify_Todo_def own_props_def dca)
  have co: "get_prop (stringify_Todo t) ''completed'' = Some c"
    by (cases "id_todo t"; cases "title t") (simp_all add: get_prop_def stringify_Todo_def own_props_def dca)
  have cr: "get_prop (stringify_Todo t) ''createdAt'' = Some a"
    by (cases "id_todo t"; cases "title t") (simp_all add: get_prop_def stringify_Todo_def own_props_def dca)
  have n: "stringify_Todo t \<noteq> JNull" by (simp add: stringify_Todo_def)
  show ?thesis
    using n dca by (simp add: fromObject_def i ti de co cr coalesce_def nullish_def new_Todo_def)
qed

lemma map_fromObject_stringify:
  assumes "\<forall>t\<in>set ts. \<not> nullish (description t) \<and> \<not> nullish (completed t) \<and> \<not> nullish (createdAt t)"
  shows "map_fromObject (map stringify_Todo ts) now k = Inr ts"
  using assms by (induction ts arbitrary: k) (simp_all add: fromObject_stringify_Todo)



lemma todos_loadTodos [simp]: "todos (snd (loadTodos st now)) = todos (read_todos st now)"
  by (simp add: loadTodos_def)

text \<open>
  Claim C10. \<^verbatim>\<open>Todo.fromObject\<close> of a stored object always returns a task: \<^verbatim>\<open>id\<close> and
  \<^verbatim>\<open>title\<close> are what the object has (\<^verbatim>\<open>undefined\<close> when it has none), a missing
  \<^verbatim>\<open>description\<close> becomes the empty string, a missing \<^verbatim>\<open>completed\<close> becomes
  \<^verbatim>\<open>false\<close>, a missing \<^verbatim>\<open>createdAt\<close> becomes the current time, and a field that is
  present and not \<^verbatim>\<open>null\<close> is kept.
\<close>

theorem fromObject_repairs_missing_fields:
  "\<exists>t. fromObject (JObj fs) now = Inr t
     \<and> id_todo t = map_of fs ''id''
     \<and> title t = map_of fs ''title''
     \<and> (map_of fs ''description'' = None \<longrightarrow> description t = Some (JStr []))
     \<and> (map_of fs ''completed'' = None \<longrightarrow> completed t = Some (JBool False))
     \<and> (map_of fs ''createdAt'' = None \<longrightarrow> createdAt t = Some (JNum now))
     \<and> (\<not> nullish (map_of fs ''description'') \<longrightarrow> description t = map_of fs ''description'')
     \<and> (\<not> nullish (map_of fs ''completed'') \<longrightarrow> completed t = map_of fs ''completed'')
     \<and> (\<not> nullish (map_of fs ''createdAt'') \<longrightarrow> createdAt t = map_of fs ''createdAt'')"
  by (auto simp: fromObject_def new_Todo_def get_prop_def coalesce_def nullish_def split: option.splits)

theorem fromObject_repairs_missing_fields_witness:
  "fromObject (JObj [(''id'', JStr ''a''), (''title'', JStr ''Buy milk'')]) (num 7) =
     Inr \<lparr> id_todo = Some (JStr ''a''), title = Some (JStr ''Buy milk''),
           description = Some (JStr []), completed = Some (JBool False),
           createdAt = Some (JNum (num 7)) \<rparr>
   \<and> fromObject (JObj [(''description'', JStr ''d''), (''completed'', JBool True), (''createdAt'', JNum (num 3))]) (num 7) =
     Inr \<lparr> id_todo = None, title = None,
           description = Some (JStr ''d''), completed = Some (JBool True),
           createdAt = Some (JNum (num 3)) \<rparr>"
proof -
  have a: "fromObject (JObj [(''id'', JStr ''a''), (''title'', JStr ''Buy milk'')]) (num 7) =
     Inr \<lparr> id_todo = Some (JStr ''a''), title = Some (JStr ''Buy milk''),
           description = Some (JStr []), completed = Some (JBool False),
           createdAt = Some (JNum (num 7)) \<rparr>"
    using fromObject_repairs_missing_fields
      [of "[(''id'', JStr ''a''), (''title'', JStr ''Buy milk'')]" "num 7"]
    by auto
  have b: "fromObject (JObj [(''description'', JStr ''d''), (''completed'', JBool True), (''createdAt'', JNum (num 3))]) (num 7) =
     Inr \<lparr> id_todo = None, title = None,
           description = Some (JStr ''d''), completed = Some (JBool True),
           createdAt = Some (JNum (num 3)) \<rparr>"
    using fromObject_repairs_missing_fields
      [of "[(''description'', JStr ''d''), (''completed'', JBool True), (''createdAt'', JNum (num 3))]" "num 7"]
    by (auto simp: nullish_def)
  from a b show ?thesis by simp
qed




text \<open>
  Claim C7. When the store takes the write, \<^verbatim>\<open>saveTodos\<close> leaves the serialised
  collection in it, and \<^verbatim>\<open>loadTodos\<close> in any state with that store yields the same
  sequence of tasks, every field equal, for tasks whose \<^verbatim>\<open>description\<close>, \<^verbatim>\<open>completed\<close>
  and \<^verbatim>\<open>createdAt\<close> are neither \<^verbatim>\<open>null\<close> nor \<^verbatim>\<open>undefined\<close> (as the constructor and
  \<^verbatim>\<open>Todo.fromObject\<close> make them).
\<close>

theorem save_then_load_roundtrip:
  assumes "accepts_writes (storage st)"
    and "\<forall>t\<in>set (todos st). \<not> nullish (description t) \<and> \<not> nullish (completed t) \<and> \<not> nullish (createdAt t)"
    and "colorfulTodo (storage st') = colorfulTodo (storage (saveTodos st))"
  shows "colorfulTodo (storage (saveTodos st)) = Some (JSON_stringify (todos st))
       \<and> todos (snd (loadTodos st' now)) = todos st"
proof -
  have s: "colorfulTodo (storage (saveTodos st)) = Some (JSON_stringify (todos st))"
    using assms(1) by (simp add: saveTodos_def setItem_def)
  have "parse_todos (JSON_stringify (todos st)) now = Inr (todos st)"
    by (simp add: parse_todos_def JSON_parse_def JSON_stringify_def map_fromObject_stringify [OF assms(2)])
  then have "todos (snd (loadTodos st' now)) = todos st"
    using assms(3) s by (simp add: read_todos_def JSON_stringify_def)
  with s show ?thesis by simp
qed

theorem save_then_load_roundtrip_witness:
  "todos (snd (loadTodos (st0\<lparr>storage := storage (saveTodos one_task)\<rparr>) (\<lambda>k. num 9))) = todos one_task"
proof -
  have w: "accepts_writes (storage one_task)"
    by (simp add: one_task_def)
  have n: "\<forall>t\<in>set (todos one_task).
      \<not> nullish (description t) \<and> \<not> nullish (completed t) \<and> \<not> nullish (createdAt t)"
    by (simp add: one_task_def nullish_def)
  have e: "colorfulTodo (storage (st0\<lparr>storage := storage (saveTodos one_task)\<rparr>)) =
      colorfulTodo (storage (saveTodos one_task))"
    by simp
  from save_then_load_roundtrip [OF w n e] show ?thesis by blast
qed

section \<open>Identity and creation time\<close>

lemma stamp_merge_updates: "stamp (merge_updates t u) = stamp t"
  by (simp add: stamp_def merge_updates_def Let_def split: option.splits json.splits)

lemma map_stamp_update:
  assumes "stamp y = stamp (xs ! k)"
  shows "map stamp (xs[k := y]) = map stamp xs"
proof (cases "k < length xs")
  case True
  with assms have "(map stamp xs)[k := stamp y] = (map stamp xs)[k := map stamp xs ! k]"
    by simp
  then show ?thesis by (simp add: map_update)
next
  case False
  then show ?thesis by (simp add: list_update_beyond)
qed

lemma stamps_updateTodo: "map stamp (todos (snd (updateTodo st i u))) = map stamp (todos st)"
  by (simp add: updateTodo_def map_stamp_update stamp_merge_updates split: option.splits)

lemma stamps_toggleComplete: "map stamp (todos (snd (toggleComplete st i))) = map stamp (todos st)"
  by (simp add: toggleComplete_def map_stamp_update stamp_def split: option.splits)

lemma todos_addTodo:
  "todos (snd (addTodo st uuid now t d)) =
     todos st @ [\<lparr> id_todo = Some (JStr uuid), title = Some (JStr (trim t)),
                    description = Some (JStr (trim d)), completed = Some (JBool False),
                    createdAt = Some (JNum now) \<rparr>]"
  by (simp add: addTodo_returns)

lemma stamps_step:
  "subseq (map stamp (todos (snd (apply_operation engine st x)))) (map stamp (todos st) @ created [x])"
proof (cases x)
  case (Create uuid now t d)
  then show ?thesis by (simp add: todos_addTodo stamp_def)
next
  case (Update i u)
  then show ?thesis by (simp add: stamps_updateTodo)
next
  case (Toggle i)
  then show ?thesis by (simp add: stamps_toggleComplete)
next
  case (Delete i)
  then show ?thesis by (simp add: todos_deleteTodo subseq_map)
qed

lemma created_Cons: "created (x # xs) = created [x] @ created xs"
  by (cases x) simp_all

lemma stamps_run:
  "subseq (map stamp (todos (run engine st ops))) (map stamp (todos st) @ created ops)"
proof (induction ops arbitrary: st)
  case Nil
  then show ?case by simp
next
  case (Cons x xs)
  have "subseq (map stamp (todos (run engine (snd (apply_operation engine st x)) xs)))
          (map stamp (todos (snd (apply_operation engine st x))) @ created xs)"
    by (rule Cons.IH)
  also have "subseq (map stamp (todos (snd (apply_operation engine st x))) @ created xs)
          ((map stamp (todos st) @ created [x]) @ created xs)"
    by (intro list_emb_append_mono stamps_step) simp
  finally show ?case
    using created_Cons [of x xs] by simp
qed

text \<open>
  Claim C8. No operation rewrites \<^verbatim>\<open>id\<close> or \<^verbatim>\<open>createdAt\<close>. \<^verbatim>\<open>updateTodo\<close> and
  \<^verbatim>\<open>toggleComplete\<close> keep both fields of every task, position by position;
  \<^verbatim>\<open>deleteTodo\<close> keeps the surviving tasks whole, and all tasks when it throws;
  \<^verbatim>\<open>addTodo\<close> keeps the tasks there were and appends one with the new identifier and the
  current time. So after any sequence of operations the pairs of \<^verbatim>\<open>id\<close> and
  \<^verbatim>\<open>createdAt\<close> of the collection are, in order, pairs of the initial tasks or pairs
  assigned by the creations of the sequence.
\<close>

theorem operations_keep_id_and_createdAt:
  "subseq (map stamp (todos (run engine st ops))) (map stamp (todos st) @ created ops)
   \<and> map stamp (todos (snd (updateTodo st i u))) = map stamp (todos st)
   \<and> map stamp (todos (snd (toggleComplete st i))) = map stamp (todos st)
   \<and> todos (snd (deleteTodo engine st i)) =
       (if fst (deleteTodo engine st i) = None
        then filter (\<lambda>t. id_todo t \<noteq> Some (JStr i)) (todos st) else todos st)
   \<and> take (length (todos st)) (todos (snd (addTodo st uuid now t d))) = todos st
   \<and> map stamp (drop (length (todos st)) (todos (snd (addTodo st uuid now t d))))
       = [(Some (JStr uuid), Some (JNum now))]"
  using stamps_run [of engine st ops] stamps_updateTodo [of st i u] stamps_toggleComplete [of st i]
    todos_deleteTodo [of engine st i]
  by (simp add: todos_addTodo stamp_def)

end
